theory Spec2Isabelle
  imports Main "HOL-Library.AList"
begin

section \<open>JavaScript objects as property lists\<close>

text \<open>
  The form model of \<^verbatim>\<open>packages/xstate-form/src/index.ts\<close> works on plain JavaScript
  objects: \<^verbatim>\<open>values\<close>, \<^verbatim>\<open>errors\<close> and \<^verbatim>\<open>touched\<close> map field names to values. An
  object is modelled as the list of its own enumerable properties in insertion order
  (the order \<^verbatim>\<open>Object.keys\<close> and the spread operator walk them in). A JavaScript
  object holds every property name once; \<open>wf_obj\<close> says so of a list. Names that look
  like array indices are enumerated first by JavaScript; the list keeps them where
  they were added, and every statement below reads an object through its properties
  (\<open>get_prop\<close>) or its set of names, not through their order.

  Of the prototype chain one property matters: \<^verbatim>\<open>__proto__\<close>, an accessor of
  \<^verbatim>\<open>Object.prototype\<close>. A property of an object literal (\<^verbatim>\<open>[k]: v\<close>, \<^verbatim>\<open>...src\<close>) is
  defined on the object itself under any name (\<open>set_prop\<close>); an assignment
  \<^verbatim>\<open>ob[k] = v\<close> to the name \<^verbatim>\<open>__proto__\<close>, when the object has no property of its own
  under that name, calls the inherited setter instead (\<open>assign_prop\<close>).

  A property that is present and holds \<^verbatim>\<open>undefined\<close> is a pair whose value is
  \<open>None\<close> (only \<^verbatim>\<open>errors\<close>, of type \<^verbatim>\<open>{ [K in keyof Values]?: string }\<close>, has
  such values here).
\<close>

type_synonym 'a obj = "(string \<times> 'a) list"

definition wf_obj :: "'a obj \<Rightarrow> bool" where
  "wf_obj ob = distinct (map fst ob)"

text \<open>\<^verbatim>\<open>Object.keys(ob)\<close> and \<^verbatim>\<open>Object.values(ob)\<close>.\<close>

definition Object_keys :: "'a obj \<Rightarrow> string list" where
  "Object_keys ob = map fst ob"

definition Object_values :: "'a obj \<Rightarrow> 'a list" where
  "Object_values ob = map snd ob"

text \<open>The own property \<open>k\<close> of \<open>ob\<close>: \<open>None\<close> when \<open>ob\<close> has no property \<open>k\<close> of its own.\<close>

definition get_prop :: "'a obj \<Rightarrow> string \<Rightarrow> 'a option" where
  "get_prop ob k = map_of ob k"

text \<open>
  A property \<^verbatim>\<open>[k]: v\<close> of an object literal, defined on the object itself: an existing
  property keeps its place and takes the new value, a new one is added last.
\<close>

definition set_prop :: "string \<Rightarrow> 'a \<Rightarrow> 'a obj \<Rightarrow> 'a obj" where
  "set_prop k v ob = AList.update k v ob"

text \<open>
  The assignment \<^verbatim>\<open>ob[k] = v\<close> of a boolean to an object made from \<^verbatim>\<open>{}\<close>. Under
  every name but \<^verbatim>\<open>__proto__\<close>, and under \<^verbatim>\<open>__proto__\<close> when the object has such a
  property of its own, it writes the property. Otherwise the name \<^verbatim>\<open>__proto__\<close> reaches
  the setter of \<^verbatim>\<open>Object.prototype\<close>, which ignores a value that is no object: the
  object is left as it is and gets no property.
\<close>

definition assign_prop :: "string \<Rightarrow> bool \<Rightarrow> bool obj \<Rightarrow> bool obj" where
  "assign_prop k v ob =
     (if k = ''__proto__'' \<and> get_prop ob k = None then ob else set_prop k v ob)"

text \<open>
  \<^verbatim>\<open>...src\<close> inside an object literal whose properties so far are \<open>target\<close>: every
  property of \<open>src\<close> is set on the literal, in order.
\<close>

definition spread :: "'a obj \<Rightarrow> 'a obj \<Rightarrow> 'a obj" where
  "spread src target = fold (\<lambda>p. set_prop (fst p) (snd p)) src target"

text \<open>
  \<^verbatim>\<open>f?.(x)\<close> for an optional function \<open>f\<close> whose result may be \<^verbatim>\<open>undefined\<close>
  (\<open>None\<close>), and \<^verbatim>\<open>r || {}\<close> for \<open>r\<close> an object or \<^verbatim>\<open>undefined\<close> (every object is
  truthy, the empty one too).
\<close>

definition optional_call :: "('a \<Rightarrow> 'b option) option \<Rightarrow> 'a \<Rightarrow> 'b option" where
  "optional_call f x = (case f of None \<Rightarrow> None | Some g \<Rightarrow> g x)"

definition or_empty :: "'a obj option \<Rightarrow> 'a obj" where
  "or_empty r = (case r of None \<Rightarrow> [] | Some e \<Rightarrow> e)"

section \<open>The data model\<close>

text \<open>
  \<^verbatim>\<open>ErrorsFromValues\<close> is \<open>string option obj\<close>, \<^verbatim>\<open>BooleanMap\<close> is \<open>bool obj\<close>, and
  \<^verbatim>\<open>ValidateFunction\<close> returns \<^verbatim>\<open>ErrorsFromValues<Values> | void\<close>: \<open>None\<close> is the
  \<^verbatim>\<open>void\<close> result. \<^verbatim>\<open>validate\<close> is an optional member of \<^verbatim>\<open>FormModelParams\<close>.
\<close>

type_synonym 'v ValidateFunction = "'v obj \<Rightarrow> string option obj option"

record 'v FormModelParams =
  initialValues :: "'v obj"
  validate :: "'v ValidateFunction option"

record 'v InitialState =
  errors :: "string option obj"
  touched :: "bool obj"
  "values" :: "'v obj"

text \<open>
  \<^verbatim>\<open>FormContext<Key, Values>\<close> is an object with the property \<^verbatim>\<open>[key]\<close>; a host context
  (\<^verbatim>\<open>TContext extends FormContext<Key, Values>\<close>) is an extension of the record, and
  \<^verbatim>\<open>context[key]\<close> is the field \<open>form\<close>.
\<close>

record 'v FormContext =
  form :: "'v InitialState"

text \<open>The events: \<^verbatim>\<open>{ type, name }\<close> for FOCUS, \<^verbatim>\<open>{ type, name, value }\<close> for CHANGE and BLUR.\<close>

record EventObject =
  type :: string

record NameEvent = EventObject +
  name :: string

record 'v ValueEvent = NameEvent +
  "value" :: 'v

section \<open>Initial state\<close>

text \<open>
  \<^verbatim>\<open>toInitialBooleanMap\<close>: the \<^verbatim>\<open>forEach\<close> over \<^verbatim>\<open>Object.keys(values)\<close> is a fold that
  starts from the empty object; its body \<^verbatim>\<open>map[key] = false\<close> is an assignment.
\<close>

definition toInitialBooleanMap :: "'v obj \<Rightarrow> bool obj" where
  "toInitialBooleanMap vs = fold (\<lambda>key m. assign_prop key False m) (Object_keys vs) []"

definition makeInitialStateFromConfig :: "'v FormModelParams \<Rightarrow> 'v InitialState" where
  "makeInitialStateFromConfig config =
     \<lparr> errors = or_empty (optional_call (validate config) (initialValues config)),
       touched = toInitialBooleanMap (initialValues config),
       values = initialValues config \<rparr>"

section \<open>createFormModel\<close>

text \<open>
  The members of the bundle \<^verbatim>\<open>createFormModel(key, config)\<close> returns are closures over
  \<open>key\<close> and \<open>config\<close>; here each takes what it closes over as its first arguments.
\<close>

subsection \<open>Event constructors\<close>

definition change :: "string \<Rightarrow> string \<Rightarrow> 'v \<Rightarrow> 'v ValueEvent" where
  "change key n v = \<lparr> type = key @ ''.CHANGE'', name = n, value = v \<rparr>"

definition blur :: "string \<Rightarrow> string \<Rightarrow> 'v \<Rightarrow> 'v ValueEvent" where
  "blur key n v = \<lparr> type = key @ ''.BLUR'', name = n, value = v \<rparr>"

definition focus :: "string \<Rightarrow> string \<Rightarrow> NameEvent" where
  "focus key n = \<lparr> type = key @ ''.FOCUS'', name = n \<rparr>"

subsection \<open>State-merging behaviors\<close>

text \<open>
  Each is the function given to \<^verbatim>\<open>assign\<close>; its result is the partial context
  \<^verbatim>\<open>{ [key]: ... }\<close>, which the host merges into its context. The behaviors and the
  selectors read nothing of a context but its property \<^verbatim>\<open>[key]\<close>.
\<close>

definition assignChangeToState ::
  "'v FormModelParams \<Rightarrow> ('v, 'z) FormContext_scheme \<Rightarrow> ('v, 'e) ValueEvent_scheme
     \<Rightarrow> 'v FormContext" where
  "assignChangeToState config ctx event =
     (let newValues = set_prop (name event) (value event) (spread (values (form ctx)) [])
      in \<lparr> form = (form ctx)
             \<lparr> values := newValues,
               errors := or_empty (optional_call (validate config) newValues) \<rparr> \<rparr>)"

definition assignBlurToState ::
  "'v FormModelParams \<Rightarrow> ('v, 'z) FormContext_scheme \<Rightarrow> ('v, 'e) ValueEvent_scheme
     \<Rightarrow> 'v FormContext" where
  "assignBlurToState config ctx event =
     (let newValues = set_prop (name event) (value event) (spread (values (form ctx)) [])
      in \<lparr> form = (form ctx)
             \<lparr> values := newValues,
               errors := or_empty (optional_call (validate config) newValues) \<rparr> \<rparr>)"

definition assignFocusToState ::
  "('v, 'z) FormContext_scheme \<Rightarrow> 'e NameEvent_scheme \<Rightarrow> 'v FormContext" where
  "assignFocusToState ctx event =
     \<lparr> form = (form ctx)
         \<lparr> touched := set_prop (name event) True (spread (touched (form ctx)) []) \<rparr> \<rparr>"

subsection \<open>Selectors\<close>

text \<open>
  \<^verbatim>\<open>Object.values(touched).some(Boolean)\<close>: \<^verbatim>\<open>Boolean\<close> is the identity on booleans.
\<close>

definition getIsDirty :: "('v, 'z) FormContext_scheme \<Rightarrow> bool" where
  "getIsDirty ctx = list_ex (\<lambda>b. b) (Object_values (touched (form ctx)))"

definition getIsValid :: "('v, 'z) FormContext_scheme \<Rightarrow> bool" where
  "getIsValid ctx = (length (Object_keys (errors (form ctx))) = 0)"

definition getIsPristine :: "('v, 'z) FormContext_scheme \<Rightarrow> bool" where
  "getIsPristine ctx = (\<not> getIsDirty ctx)"

subsection \<open>createState\<close>

text \<open>
  Modelled from the spec: the host runtime's configuration types (\<^verbatim>\<open>StateNodeConfig\<close>,
  its \<^verbatim>\<open>on\<close> object of transition handlers, and the actions of a handler) belong to the
  state-machine library, whose sources are not part of this development. A handler is
  its list of actions; an action is either an assignment (\<^verbatim>\<open>assign(f)\<close>, a
  state-transformation function of context and event) or any other action of the
  caller's, which cannot change the context. \<open>createState\<close> reads only \<^verbatim>\<open>on\<close>, an
  optional member; the rest of the state-node configuration is the record's extension.
\<close>

datatype ('c, 'e, 'a) action = is_Assign: Assign "'c \<Rightarrow> 'e \<Rightarrow> 'c" | is_Effect: Effect 'a

record ('c, 'e, 'a) TransitionConfig =
  actions :: "('c, 'e, 'a) action list"

record ('c, 'e, 'a) StateNodeConfig =
  on :: "('c, 'e, 'a) TransitionConfig obj option"

text \<open>
  \<^verbatim>\<open>{ ...config, on: { [`${key}.CHANGE`]: ..., [`${key}.BLUR`]: ..., [`${key}.FOCUS`]: ...,
  ...config.on } }\<close>: the three defaults are written first, the caller's \<^verbatim>\<open>on\<close> is spread
  over them (spreading \<^verbatim>\<open>undefined\<close> adds nothing).
\<close>

definition createState ::
  "string \<Rightarrow> 'v FormModelParams
     \<Rightarrow> ('v FormContext, 'v ValueEvent, 'a, 'z) StateNodeConfig_scheme
     \<Rightarrow> ('v FormContext, 'v ValueEvent, 'a, 'z) StateNodeConfig_scheme" where
  "createState key formConfig config =
     config \<lparr> on := Some
       (let defaults =
          set_prop (key @ ''.FOCUS'') \<lparr> actions = [Assign assignFocusToState] \<rparr>
            (set_prop (key @ ''.BLUR'') \<lparr> actions = [Assign (assignBlurToState formConfig)] \<rparr>
              (set_prop (key @ ''.CHANGE'')
                 \<lparr> actions = [Assign (assignChangeToState formConfig)] \<rparr> []))
        in case on config of None \<Rightarrow> defaults | Some callers \<Rightarrow> spread callers defaults) \<rparr>"

text \<open>The handler a state-node configuration declares for an event name, if any.\<close>

definition handler_for ::
  "('c, 'e, 'a, 'z) StateNodeConfig_scheme \<Rightarrow> string \<Rightarrow> ('c, 'e, 'a) TransitionConfig option" where
  "handler_for config eventName =
     (case on config of None \<Rightarrow> None | Some handlers \<Rightarrow> get_prop handlers eventName)"

subsection \<open>The bundle's initial context\<close>

definition initialContext :: "'v FormModelParams \<Rightarrow> 'v InitialState" where
  "initialContext config = makeInitialStateFromConfig config"

section \<open>The host machine\<close>

text \<open>
  Modelled from the spec: the host state-machine runtime is not part of these sources.
  It dispatches an event to the handler registered under exactly the event's
  \<^verbatim>\<open>type\<close>, and applies the handler's state-transformation functions, one after the
  other, to produce the next context; an action that is no assignment leaves the
  context as it is, and so does an event with no handler.
\<close>

fun exec_action :: "('c, 'e, 'a) action \<Rightarrow> 'e \<Rightarrow> 'c \<Rightarrow> 'c" where
  "exec_action (Assign f) event ctx = f ctx event"
| "exec_action (Effect a) event ctx = ctx"

definition send ::
  "('c, ('v, 'x) ValueEvent_scheme, 'a, 'z) StateNodeConfig_scheme \<Rightarrow> 'c
     \<Rightarrow> ('v, 'x) ValueEvent_scheme \<Rightarrow> 'c" where
  "send node ctx event =
     (case handler_for node (type event) of
        None \<Rightarrow> ctx
      | Some t \<Rightarrow> fold (\<lambda>a c. exec_action a event c) (actions t) ctx)"

section \<open>Sequences of behavior applications\<close>

text \<open>
  The host applies the behaviors one at a time, each to the context the one before
  produced, starting from \<^verbatim>\<open>{ [key]: model.initialContext }\<close>.
\<close>

datatype 'v application =
  ApplyChange "'v ValueEvent" | ApplyBlur "'v ValueEvent" | ApplyFocus NameEvent

fun apply_behavior :: "'v FormModelParams \<Rightarrow> 'v application \<Rightarrow> 'v FormContext \<Rightarrow> 'v FormContext" where
  "apply_behavior config (ApplyChange event) ctx = assignChangeToState config ctx event"
| "apply_behavior config (ApplyBlur event) ctx = assignBlurToState config ctx event"
| "apply_behavior config (ApplyFocus event) ctx = assignFocusToState ctx event"

definition run_behaviors :: "'v FormModelParams \<Rightarrow> 'v application list \<Rightarrow> 'v FormContext" where
  "run_behaviors config apps = fold (apply_behavior config) apps \<lparr> form = initialContext config \<rparr>"

text \<open>
  A call of one of the model's event constructors, \<^verbatim>\<open>events.change(name, value)\<close>,
  \<^verbatim>\<open>events.blur(name, value)\<close> or \<^verbatim>\<open>events.focus(name)\<close>, and the behavior application
  the event it makes leads to.
\<close>

datatype 'v call = CallChange string 'v | CallBlur string 'v | CallFocus string

fun call_name :: "'v call \<Rightarrow> string" where
  "call_name (CallChange n v) = n"
| "call_name (CallBlur n v) = n"
| "call_name (CallFocus n) = n"

fun call_event :: "string \<Rightarrow> 'v call \<Rightarrow> 'v application" where
  "call_event key (CallChange n v) = ApplyChange (change key n v)"
| "call_event key (CallBlur n v) = ApplyBlur (blur key n v)"
| "call_event key (CallFocus n) = ApplyFocus (focus key n)"

section \<open>The login form of the test suite\<close>

text \<open>
  \<^verbatim>\<open>createFormModel('loginForm', { initialValues: { username: '', password: '' },
  validate: ({ username, password }) => { if (!username) { return { username: 'You must
  provide a username' }; } if (!password) { return { password: 'You must provide a
  password' }; } } })\<close>. The validator returns nothing when both fields are filled.
  \<^verbatim>\<open>!s\<close> holds of \<^verbatim>\<open>undefined\<close> and of the empty string.
\<close>

definition falsy :: "string option \<Rightarrow> bool" where
  "falsy s = (case s of None \<Rightarrow> True | Some t \<Rightarrow> t = [])"

definition loginValidate :: "string ValidateFunction" where
  "loginValidate vs =
     (if falsy (get_prop vs ''username'')
      then Some [(''username'', Some ''You must provide a username'')]
      else if falsy (get_prop vs ''password'')
      then Some [(''password'', Some ''You must provide a password'')]
      else None)"

definition loginConfig :: "string FormModelParams" where
  "loginConfig =
     \<lparr> initialValues = [(''username'', []), (''password'', [])],
       validate = Some loginValidate \<rparr>"

section \<open>Properties\<close>

subsection \<open>Property lists\<close>

lemma update_fresh: "k \<notin> fst ` set xs \<Longrightarrow> AList.update k v xs = xs @ [(k, v)]"
  by (induction xs) auto

lemma fold_set_prop_append:
  "distinct (map fst (xs @ ys)) \<Longrightarrow>
   fold (\<lambda>p. set_prop (fst p) (snd p)) ys xs = xs @ ys"
proof (induction ys arbitrary: xs)
  case Nil
  then show ?case by simp
next
  case (Cons p ys)
  have fresh: "fst p \<notin> fst ` set xs" using Cons.prems by auto
  have "distinct (map fst ((xs @ [p]) @ ys))" using Cons.prems by auto
  then have "fold (\<lambda>p. set_prop (fst p) (snd p)) ys (xs @ [p]) = (xs @ [p]) @ ys"
    by (rule Cons.IH)
  moreover have "set_prop (fst p) (snd p) xs = xs @ [p]"
    using fresh by (simp add: set_prop_def update_fresh)
  ultimately show ?case by simp
qed

lemma spread_empty: "wf_obj ob \<Longrightarrow> spread ob [] = ob"
  using fold_set_prop_append [of "[]" ob] by (simp add: spread_def wf_obj_def)

lemma get_set_prop: "get_prop (set_prop k v ob) k' = (if k' = k then Some v else get_prop ob k')"
  by (simp add: get_prop_def set_prop_def update_conv')

lemma wf_set_prop: "wf_obj ob \<Longrightarrow> wf_obj (set_prop k v ob)"
  by (simp add: wf_obj_def set_prop_def distinct_update)

lemma keys_set_prop: "set (Object_keys (set_prop k v ob)) = insert k (set (Object_keys ob))"
  by (simp add: Object_keys_def set_prop_def dom_update)

lemma set_prop_mem: "(k, v) \<in> set (set_prop k v ob)"
  unfolding set_prop_def by (induction ob) auto

lemma get_prop_Nil: "get_prop [] k = None"
  by (simp add: get_prop_def)

lemma get_prop_Cons: "get_prop (p # ob) k = (if k = fst p then Some (snd p) else get_prop ob k)"
  by (cases p) (simp add: get_prop_def)

lemma get_prop_None: "(get_prop ob k = None) = (k \<notin> set (Object_keys ob))"
  by (simp add: get_prop_def Object_keys_def map_of_eq_None_iff)

lemma get_assign_prop:
  "get_prop (assign_prop a v m) k =
     (if k = a \<and> (a \<noteq> ''__proto__'' \<or> get_prop m a \<noteq> None) then Some v else get_prop m k)"
  by (auto simp: assign_prop_def get_set_prop)

lemma fold_false_get:
  "get_prop (fold (\<lambda>key m. assign_prop key False m) ks m) k =
     (if k \<in> set ks \<and> (k \<noteq> ''__proto__'' \<or> get_prop m ''__proto__'' \<noteq> None)
      then Some False else get_prop m k)"
proof (induction ks arbitrary: m)
  case Nil
  then show ?case by simp
next
  case (Cons a ks)
  show ?case
    by (auto simp: Cons.IH get_assign_prop)
qed

lemma fold_false_keys:
  "set (Object_keys (fold (\<lambda>key m. assign_prop key False m) ks m)) =
     {k \<in> set ks. k \<noteq> ''__proto__'' \<or> get_prop m ''__proto__'' \<noteq> None} \<union> set (Object_keys m)"
proof -
  have "k \<in> set (Object_keys (fold (\<lambda>key m. assign_prop key False m) ks m)) \<longleftrightarrow>
      k \<in> {k \<in> set ks. k \<noteq> ''__proto__'' \<or> get_prop m ''__proto__'' \<noteq> None} \<union> set (Object_keys m)"
    for k
    using fold_false_get [of ks m k] get_prop_None [of m k]
      get_prop_None [of "fold (\<lambda>key m. assign_prop key False m) ks m" k]
    by (auto split: if_splits)
  then show ?thesis by blast
qed

lemma wf_assign_prop: "wf_obj ob \<Longrightarrow> wf_obj (assign_prop k v ob)"
  by (simp add: assign_prop_def wf_set_prop)

lemma fold_false_wf:
  "wf_obj m \<Longrightarrow> wf_obj (fold (\<lambda>key m. assign_prop key False m) ks m)"
  by (induction ks arbitrary: m) (auto simp: wf_assign_prop)

lemma spread_get:
  "wf_obj src \<Longrightarrow> get_prop (spread src target) k =
     (case get_prop src k of Some v \<Rightarrow> Some v | None \<Rightarrow> get_prop target k)"
proof (induction src arbitrary: target)
  case Nil
  then show ?case by (simp add: spread_def get_prop_Nil)
next
  case (Cons p src)
  have wf: "wf_obj src" and fresh: "fst p \<notin> set (Object_keys src)"
    using Cons.prems by (auto simp: wf_obj_def Object_keys_def)
  have step: "spread (p # src) target = spread src (set_prop (fst p) (snd p) target)"
    by (simp add: spread_def)
  show ?case
  proof (cases "k = fst p")
    case True
    then have "get_prop src k = None" using fresh by (simp add: get_prop_None)
    then show ?thesis using True Cons.IH [OF wf]
      by (simp add: step get_prop_Cons get_set_prop)
  next
    case False
    then show ?thesis using Cons.IH [OF wf]
      by (simp add: step get_prop_Cons get_set_prop split: option.splits)
  qed
qed

subsection \<open>Evaluation on the login form\<close>

lemmas login_eval =
  loginConfig_def loginValidate_def falsy_def initialContext_def makeInitialStateFromConfig_def
  toInitialBooleanMap_def assign_prop_def assignChangeToState_def assignBlurToState_def assignFocusToState_def
  change_def blur_def focus_def set_prop_def spread_def get_prop_def or_empty_def
  optional_call_def Object_keys_def Object_values_def wf_obj_def Let_def run_behaviors_def
  getIsValid_def getIsDirty_def getIsPristine_def

text \<open>
  The scenario of the test suite: the initial errors name \<^verbatim>\<open>username\<close>, after
  \<^verbatim>\<open>change('username', 'something')\<close> they name \<^verbatim>\<open>password\<close>, and after
  \<^verbatim>\<open>change('password', 'pass')\<close> they are empty and the form is valid.
\<close>

lemma login_scenario:
  "errors (form (run_behaviors loginConfig [])) =
     [(''username'', Some ''You must provide a username'')] \<and>
   \<not> getIsValid (run_behaviors loginConfig []) \<and>
   errors (form (run_behaviors loginConfig
      [ApplyChange (change ''loginForm'' ''username'' ''something'')])) =
     [(''password'', Some ''You must provide a password'')] \<and>
   errors (form (run_behaviors loginConfig
      [ApplyChange (change ''loginForm'' ''username'' ''something''),
       ApplyChange (change ''loginForm'' ''password'' ''pass'')])) = [] \<and>
   getIsValid (run_behaviors loginConfig
      [ApplyChange (change ''loginForm'' ''username'' ''something''),
       ApplyChange (change ''loginForm'' ''password'' ''pass'')])"
  by (simp add: login_eval)

subsection \<open>The validation result\<close>

lemma validation_result:
  "or_empty (optional_call v x) =
     (case v of None \<Rightarrow> [] | Some f \<Rightarrow> (case f x of None \<Rightarrow> [] | Some e \<Rightarrow> e))"
  by (simp add: or_empty_def optional_call_def split: option.splits)

subsection \<open>CHANGE and BLUR\<close>

text \<open>
  C1, as the code has it. For every prior context (its \<^verbatim>\<open>values\<close> a well-formed object),
  every field name and every value, the CHANGE behavior and the BLUR behavior each yield
  a state whose \<^verbatim>\<open>values\<close> map the event's field to the event's value and every other
  field to its previous value, whose \<^verbatim>\<open>touched\<close> is the previous one, and whose
  \<^verbatim>\<open>errors\<close> is the mapping the validator returns for the new values when a validator
  was supplied and returns a mapping, and the empty mapping when no validator was
  supplied or the validator returns nothing.
\<close>

theorem change_blur_effect:
  assumes "wf_obj (values (form ctx))"
  shows
    "(let next = form (assignChangeToState config ctx event) in
        get_prop (values next) (name event) = Some (value event) \<and>
        (\<forall>g. g \<noteq> name event \<longrightarrow> get_prop (values next) g = get_prop (values (form ctx)) g) \<and>
        errors next =
          (case validate config of None \<Rightarrow> []
           | Some f \<Rightarrow> (case f (values next) of None \<Rightarrow> [] | Some e \<Rightarrow> e)) \<and>
        touched next = touched (form ctx)) \<and>
     (let next = form (assignBlurToState config ctx event) in
        get_prop (values next) (name event) = Some (value event) \<and>
        (\<forall>g. g \<noteq> name event \<longrightarrow> get_prop (values next) g = get_prop (values (form ctx)) g) \<and>
        errors next =
          (case validate config of None \<Rightarrow> []
           | Some f \<Rightarrow> (case f (values next) of None \<Rightarrow> [] | Some e \<Rightarrow> e)) \<and>
        touched next = touched (form ctx))"
proof -
  let ?nv = "set_prop (name event) (value event) (values (form ctx))"
  let ?next = "(form ctx) \<lparr> values := ?nv, errors := or_empty (optional_call (validate config) ?nv) \<rparr>"
  have c: "form (assignChangeToState config ctx event) = ?next"
    using assms by (simp add: assignChangeToState_def Let_def spread_empty)
  have b: "form (assignBlurToState config ctx event) = ?next"
    using assms by (simp add: assignBlurToState_def Let_def spread_empty)
  have v: "values ?next = ?nv" and t: "touched ?next = touched (form ctx)"
    by simp_all
  have e: "errors ?next =
      (case validate config of None \<Rightarrow> []
       | Some f \<Rightarrow> (case f (values ?next) of None \<Rightarrow> [] | Some e \<Rightarrow> e))"
    unfolding v by (simp add: validation_result)
  have g: "get_prop (values ?next) (name event) = Some (value event)"
    unfolding v by (simp add: get_set_prop)
  have o: "\<forall>g. g \<noteq> name event \<longrightarrow> get_prop (values ?next) g = get_prop (values (form ctx)) g"
    unfolding v by (simp add: get_set_prop)
  show ?thesis
    unfolding Let_def c b using g o e t by blast
qed

text \<open>
  On the login form: changing \<^verbatim>\<open>username\<close> to \<^verbatim>\<open>'something'\<close> in the initial context.
\<close>

theorem change_blur_effect_witness:
  "wf_obj (values (form \<lparr> form = initialContext loginConfig \<rparr>)) \<and>
   get_prop (values (form (assignChangeToState loginConfig \<lparr> form = initialContext loginConfig \<rparr>
       (change ''loginForm'' ''username'' ''something'')))) ''username'' = Some ''something'' \<and>
   get_prop (values (form (assignChangeToState loginConfig \<lparr> form = initialContext loginConfig \<rparr>
       (change ''loginForm'' ''username'' ''something'')))) ''password'' = Some [] \<and>
   errors (form (assignBlurToState loginConfig \<lparr> form = initialContext loginConfig \<rparr>
       (blur ''loginForm'' ''username'' ''something''))) =
     [(''password'', Some ''You must provide a password'')]"
  using change_blur_effect [of "\<lparr> form = initialContext loginConfig \<rparr>" loginConfig
      "change ''loginForm'' ''username'' ''something''"]
  by (simp add: login_eval)

text \<open>
  The errors are not always what the validator returns: when \<^verbatim>\<open>password\<close> is filled in
  last, the login validator returns nothing (\<^verbatim>\<open>undefined\<close>) for the new values, and the
  stored \<^verbatim>\<open>errors\<close> is the empty object, which \<^verbatim>\<open>|| {}\<close> puts in its place.
\<close>

theorem change_errors_counterexample:
  "validate loginConfig = Some loginValidate \<and>
   loginValidate (values (form (assignChangeToState loginConfig
       \<lparr> form = \<lparr> errors = [(''password'', Some ''You must provide a password'')],
                  touched = [(''username'', False), (''password'', False)],
                  values = [(''username'', ''something''), (''password'', [])] \<rparr> \<rparr>
       (change ''loginForm'' ''password'' ''pass'')))) \<noteq>
     Some (errors (form (assignChangeToState loginConfig
       \<lparr> form = \<lparr> errors = [(''password'', Some ''You must provide a password'')],
                  touched = [(''username'', False), (''password'', False)],
                  values = [(''username'', ''something''), (''password'', [])] \<rparr> \<rparr>
       (change ''loginForm'' ''password'' ''pass''))))"
  by (simp add: login_eval)

text \<open>
  C9. The CHANGE and the BLUR behavior are the same function: on every configuration,
  every prior context and every event that carries a field name and a value,
  \<open>assignChangeToState\<close> and \<open>assignBlurToState\<close> give the same next state.
\<close>

theorem change_blur_equal:
  "assignChangeToState config ctx event = assignBlurToState config ctx event"
  by (simp add: assignChangeToState_def assignBlurToState_def)

subsection \<open>The initial state\<close>

text \<open>
  C2, as the code has it. For every \<^verbatim>\<open>initialValues\<close> and every optional validator,
  \<open>makeInitialStateFromConfig\<close> returns a state whose \<^verbatim>\<open>values\<close> is \<^verbatim>\<open>initialValues\<close>
  itself, whose \<^verbatim>\<open>errors\<close> is the mapping the validator returns for \<^verbatim>\<open>initialValues\<close>
  when a validator is supplied and returns a mapping, and the empty mapping when there
  is no validator or the validator returns nothing, and whose \<^verbatim>\<open>touched\<close> maps every key
  of \<^verbatim>\<open>initialValues\<close> other than \<^verbatim>\<open>__proto__\<close> to \<^verbatim>\<open>false\<close>.
\<close>

theorem makeInitialStateFromConfig_effect:
  "values (makeInitialStateFromConfig config) = initialValues config \<and>
   errors (makeInitialStateFromConfig config) =
     (case validate config of None \<Rightarrow> []
      | Some f \<Rightarrow> (case f (initialValues config) of None \<Rightarrow> [] | Some e \<Rightarrow> e)) \<and>
   (\<forall>k \<in> set (Object_keys (initialValues config)).
      k \<noteq> ''__proto__'' \<longrightarrow>
      get_prop (touched (makeInitialStateFromConfig config)) k = Some False)"
  by (simp add: makeInitialStateFromConfig_def toInitialBooleanMap_def fold_false_get
      validation_result)

theorem makeInitialStateFromConfig_effect_witness:
  "values (makeInitialStateFromConfig loginConfig) = [(''username'', []), (''password'', [])] \<and>
   errors (makeInitialStateFromConfig loginConfig) =
     [(''username'', Some ''You must provide a username'')] \<and>
   get_prop (touched (makeInitialStateFromConfig loginConfig)) ''username'' = Some False \<and>
   get_prop (touched (makeInitialStateFromConfig loginConfig)) ''password'' = Some False"
  using makeInitialStateFromConfig_effect [of loginConfig]
  by (simp add: login_eval)

text \<open>
  With both fields filled in from the start the login validator returns nothing, and
  the initial \<^verbatim>\<open>errors\<close> is the empty object, not the validator's result. And of
  \<^verbatim>\<open>initialValues\<close> with the keys \<^verbatim>\<open>__proto__\<close> and \<^verbatim>\<open>a\<close> (as \<^verbatim>\<open>JSON.parse\<close> or a
  computed property name make them) only \<^verbatim>\<open>a\<close> is a key of \<^verbatim>\<open>touched\<close>.
\<close>

theorem initial_errors_counterexample:
  "validate (loginConfig \<lparr> initialValues := [(''username'', ''alice''), (''password'', ''secret'')] \<rparr>)
     = Some loginValidate \<and>
   loginValidate (initialValues
       (loginConfig \<lparr> initialValues := [(''username'', ''alice''), (''password'', ''secret'')] \<rparr>)) \<noteq>
     Some (errors (makeInitialStateFromConfig
       (loginConfig \<lparr> initialValues := [(''username'', ''alice''), (''password'', ''secret'')] \<rparr>))) \<and>
   get_prop (touched (makeInitialStateFromConfig
       \<lparr> initialValues = [(''__proto__'', ''x''), (''a'', ''y'')], validate = None \<rparr>))
       ''__proto__'' \<noteq> Some False \<and>
   touched (makeInitialStateFromConfig
       \<lparr> initialValues = [(''__proto__'', ''x''), (''a'', ''y'')], validate = None \<rparr>) =
     [(''a'', False)]"
  by (simp add: login_eval)

subsection \<open>FOCUS\<close>

text \<open>
  C3. For every prior context (its \<^verbatim>\<open>touched\<close> a well-formed object) and every field
  name, the FOCUS behavior yields a state whose \<^verbatim>\<open>touched\<close> maps the event's field to
  \<^verbatim>\<open>true\<close> and every other field to its previous value, and whose \<^verbatim>\<open>values\<close> and
  \<^verbatim>\<open>errors\<close> are the previous ones; of the resulting context \<open>getIsDirty\<close> is true and
  \<open>getIsPristine\<close> is false.
\<close>

theorem focus_effect:
  assumes "wf_obj (touched (form ctx))"
  shows
    "(let next = assignFocusToState ctx event in
        get_prop (touched (form next)) (name event) = Some True \<and>
        (\<forall>g. g \<noteq> name event \<longrightarrow>
           get_prop (touched (form next)) g = get_prop (touched (form ctx)) g) \<and>
        values (form next) = values (form ctx) \<and>
        errors (form next) = errors (form ctx) \<and>
        getIsDirty next \<and> \<not> getIsPristine next)"
proof -
  have dirty: "getIsDirty (assignFocusToState ctx event)"
    using set_prop_mem [of "name event" True "spread (touched (form ctx)) []"]
    by (force simp: getIsDirty_def assignFocusToState_def Object_values_def list_ex_iff)
  show ?thesis
    using assms dirty
    by (simp add: Let_def getIsPristine_def assignFocusToState_def spread_empty get_set_prop)
qed

theorem focus_effect_witness:
  "wf_obj (touched (form \<lparr> form = initialContext loginConfig \<rparr>)) \<and>
   touched (form (assignFocusToState \<lparr> form = initialContext loginConfig \<rparr>
       (focus ''loginForm'' ''username''))) = [(''username'', True), (''password'', False)] \<and>
   getIsDirty (assignFocusToState \<lparr> form = initialContext loginConfig \<rparr>
       (focus ''loginForm'' ''username'')) \<and>
   \<not> getIsPristine (assignFocusToState \<lparr> form = initialContext loginConfig \<rparr>
       (focus ''loginForm'' ''username''))"
  using focus_effect [of "\<lparr> form = initialContext loginConfig \<rparr>" "focus ''loginForm'' ''username''"]
  by (simp add: login_eval)

subsection \<open>Selectors\<close>

text \<open>
  C4. For every context: \<open>getIsValid\<close> is true if and only if \<^verbatim>\<open>errors\<close> has no
  property at all; \<open>getIsDirty\<close> is true if and only if at least one entry of
  \<^verbatim>\<open>touched\<close> is \<^verbatim>\<open>true\<close>; and \<open>getIsPristine\<close> is the negation of \<open>getIsDirty\<close>.
\<close>

theorem selectors_meaning:
  "getIsValid ctx = (\<forall>k. get_prop (errors (form ctx)) k = None) \<and>
   getIsDirty ctx = (\<exists>k. (k, True) \<in> set (touched (form ctx))) \<and>
   getIsPristine ctx = (\<not> getIsDirty ctx)"
proof -
  have "getIsValid ctx = (\<forall>k. get_prop (errors (form ctx)) k = None)"
    by (simp add: getIsValid_def get_prop_None)
  moreover have "getIsDirty ctx = (\<exists>k. (k, True) \<in> set (touched (form ctx)))"
    by (force simp: getIsDirty_def Object_values_def list_ex_iff)
  ultimately show ?thesis by (simp add: getIsPristine_def)
qed

theorem selectors_meaning_witness:
  "\<not> getIsValid \<lparr> form = initialContext loginConfig \<rparr> \<and>
   \<not> getIsDirty \<lparr> form = initialContext loginConfig \<rparr> \<and>
   getIsPristine \<lparr> form = initialContext loginConfig \<rparr>"
  using selectors_meaning [of "\<lparr> form = initialContext loginConfig \<rparr>"]
  by (simp add: login_eval)

text \<open>
  C7, as the code has it. \<open>getIsValid\<close> counts the properties of \<^verbatim>\<open>errors\<close> and never
  reads their values: it is true of every context whose \<^verbatim>\<open>errors\<close> has no property,
  and false of every context whose \<^verbatim>\<open>errors\<close> has a property that holds nothing
  (\<^verbatim>\<open>undefined\<close>, no error string).
\<close>

theorem getIsValid_counts_entries:
  "((\<forall>k. get_prop (errors (form ctx)) k = None) \<longrightarrow> getIsValid ctx) \<and>
   ((\<exists>k. get_prop (errors (form ctx)) k = Some None) \<longrightarrow> \<not> getIsValid ctx)"
proof -
  have "getIsValid ctx = (\<forall>k. get_prop (errors (form ctx)) k = None)"
    by (simp add: getIsValid_def get_prop_None)
  then show ?thesis by auto
qed

theorem getIsValid_counts_entries_witness:
  "getIsValid \<lparr> form = \<lparr> errors = [], touched = [(''username'', False)],
       values = [(''username'', ''alice'')] \<rparr> \<rparr> \<and>
   \<not> getIsValid \<lparr> form = \<lparr> errors = [(''username'', None)], touched = [(''username'', False)],
       values = [(''username'', ''alice'')] \<rparr> \<rparr>"
  using
    getIsValid_counts_entries [of "\<lparr> form = \<lparr> errors = [], touched = [(''username'', False)],
       values = [(''username'', ''alice'')] \<rparr> \<rparr>"]
    getIsValid_counts_entries [of "\<lparr> form = \<lparr> errors = [(''username'', None)],
       touched = [(''username'', False)], values = [(''username'', ''alice'')] \<rparr> \<rparr>"]
  by (simp add: get_prop_def)

text \<open>
  A validator that writes one property per field, \<^verbatim>\<open>({ username }) => ({ username:
  username ? undefined : 'Required' })\<close>, on a filled-in field: every entry of \<^verbatim>\<open>errors\<close>
  holds nothing, and \<open>getIsValid\<close> is false.
\<close>

theorem undefined_error_counterexample:
  "list_all (\<lambda>p. snd p = None)
     (errors (makeInitialStateFromConfig
        \<lparr> initialValues = [(''username'', ''alice'')],
          validate = Some (\<lambda>vs. Some [(''username'',
            if falsy (get_prop vs ''username'') then Some ''Required'' else None)]) \<rparr>)) \<and>
   \<not> getIsValid \<lparr> form = makeInitialStateFromConfig
        \<lparr> initialValues = [(''username'', ''alice'')],
          validate = Some (\<lambda>vs. Some [(''username'',
            if falsy (get_prop vs ''username'') then Some ''Required'' else None)]) \<rparr> \<rparr>"
  by (simp add: login_eval)

subsection \<open>createState\<close>

lemma get_prop_defaults:
  "get_prop (set_prop (key @ ''.FOCUS'') f (set_prop (key @ ''.BLUR'') b
      (set_prop (key @ ''.CHANGE'') c []))) e =
   (if e = key @ ''.FOCUS'' then Some f else if e = key @ ''.BLUR'' then Some b
    else if e = key @ ''.CHANGE'' then Some c else None)"
  by (simp add: get_set_prop get_prop_Nil)

lemma createState_handler_for:
  assumes "case on config of None \<Rightarrow> True | Some callers \<Rightarrow> wf_obj callers"
  shows "handler_for (createState key formConfig config) e =
    (case handler_for config e of
       Some t \<Rightarrow> Some t
     | None \<Rightarrow>
        (if e = key @ ''.FOCUS'' then Some \<lparr> actions = [Assign assignFocusToState] \<rparr>
         else if e = key @ ''.BLUR'' then Some \<lparr> actions = [Assign (assignBlurToState formConfig)] \<rparr>
         else if e = key @ ''.CHANGE'' then Some \<lparr> actions = [Assign (assignChangeToState formConfig)] \<rparr>
         else None))"
proof (cases "on config")
  case None
  then show ?thesis
    by (simp add: handler_for_def createState_def Let_def get_prop_defaults)
next
  case (Some callers)
  then have "wf_obj callers" using assms by simp
  then show ?thesis using Some
    by (simp add: handler_for_def createState_def Let_def spread_get get_prop_defaults
        split: option.splits)
qed

lemma effects_keep_context:
  "list_all is_Effect acts \<Longrightarrow> fold (\<lambda>a c. exec_action a event c) acts ctx = ctx"
proof (induction acts)
  case Nil
  then show ?case by simp
next
  case (Cons a acts)
  then show ?case by (cases a) simp_all
qed

text \<open>
  C5, as the code has it. For every state-node configuration (its \<^verbatim>\<open>on\<close>, if any, a
  well-formed object):
  the configuration \<open>createState\<close> returns has a handler for each of
  \<^verbatim>\<open><key>.CHANGE\<close>, \<^verbatim>\<open><key>.BLUR\<close> and \<^verbatim>\<open><key>.FOCUS\<close>; a handler the caller declares,
  for any event name, is the handler of the result, whole, and replaces the default;
  where the caller declares none, the handler is the default, whose one action is the
  matching behavior. When the caller overrides \<^verbatim>\<open><key>.CHANGE\<close>, the host machine
  does on that event exactly what it does with the caller's own configuration, so the
  default behavior does not run; if the caller's actions are no assignments, the
  context, and with it \<^verbatim>\<open>values\<close>, stays as it is.
\<close>

theorem createState_handlers:
  assumes wf: "case on config of None \<Rightarrow> True | Some callers \<Rightarrow> wf_obj callers"
  shows
    "(\<forall>e \<in> {key @ ''.CHANGE'', key @ ''.BLUR'', key @ ''.FOCUS''}.
        handler_for (createState key formConfig config) e \<noteq> None) \<and>
     (\<forall>e t. handler_for config e = Some t \<longrightarrow>
        handler_for (createState key formConfig config) e = Some t) \<and>
     (handler_for config (key @ ''.CHANGE'') = None \<longrightarrow>
        handler_for (createState key formConfig config) (key @ ''.CHANGE'') =
          Some \<lparr> actions = [Assign (assignChangeToState formConfig)] \<rparr>) \<and>
     (handler_for config (key @ ''.BLUR'') = None \<longrightarrow>
        handler_for (createState key formConfig config) (key @ ''.BLUR'') =
          Some \<lparr> actions = [Assign (assignBlurToState formConfig)] \<rparr>) \<and>
     (handler_for config (key @ ''.FOCUS'') = None \<longrightarrow>
        handler_for (createState key formConfig config) (key @ ''.FOCUS'') =
          Some \<lparr> actions = [Assign assignFocusToState] \<rparr>) \<and>
     (\<forall>t event ctx.
        handler_for config (key @ ''.CHANGE'') = Some t \<longrightarrow> type event = key @ ''.CHANGE'' \<longrightarrow>
          send (createState key formConfig config) ctx event = send config ctx event \<and>
          (list_all is_Effect (actions t) \<longrightarrow>
             send (createState key formConfig config) ctx event = ctx \<and>
             values (form (send (createState key formConfig config) ctx event)) =
               values (form ctx)))"
proof -
  note h = createState_handler_for [OF wf]
  have installed: "\<forall>e \<in> {key @ ''.CHANGE'', key @ ''.BLUR'', key @ ''.FOCUS''}.
      handler_for (createState key formConfig config) e \<noteq> None"
    by (simp add: h split: option.splits)
  have callers_win: "\<forall>e t. handler_for config e = Some t \<longrightarrow>
      handler_for (createState key formConfig config) e = Some t"
    by (simp add: h)
  have d1: "handler_for config (key @ ''.CHANGE'') = None \<longrightarrow>
      handler_for (createState key formConfig config) (key @ ''.CHANGE'') =
        Some \<lparr> actions = [Assign (assignChangeToState formConfig)] \<rparr>"
    by (simp add: h)
  have d2: "handler_for config (key @ ''.BLUR'') = None \<longrightarrow>
      handler_for (createState key formConfig config) (key @ ''.BLUR'') =
        Some \<lparr> actions = [Assign (assignBlurToState formConfig)] \<rparr>"
    by (simp add: h)
  have d3: "handler_for config (key @ ''.FOCUS'') = None \<longrightarrow>
      handler_for (createState key formConfig config) (key @ ''.FOCUS'') =
        Some \<lparr> actions = [Assign assignFocusToState] \<rparr>"
    by (simp add: h)
  have run: "\<forall>t event ctx.
      handler_for config (key @ ''.CHANGE'') = Some t \<longrightarrow> type event = key @ ''.CHANGE'' \<longrightarrow>
        send (createState key formConfig config) ctx event = send config ctx event \<and>
        (list_all is_Effect (actions t) \<longrightarrow>
           send (createState key formConfig config) ctx event = ctx \<and>
           values (form (send (createState key formConfig config) ctx event)) =
             values (form ctx))"
    by (simp add: send_def h effects_keep_context)
  from installed callers_win d1 d2 d3 run show ?thesis by blast
qed

text \<open>
  The override of the test suite: \<^verbatim>\<open>'loginForm.CHANGE'\<close> handled by an action of the
  caller's; after a CHANGE of \<^verbatim>\<open>username\<close> the values are the initial ones.
\<close>

theorem createState_handlers_witness:
  "wf_obj [(''loginForm.CHANGE'', \<lparr> actions = [Effect (0::nat)] \<rparr>)] \<and>
   handler_for (createState ''loginForm'' loginConfig
       \<lparr> on = Some [(''loginForm.CHANGE'', \<lparr> actions = [Effect (0::nat)] \<rparr>)] \<rparr>)
       ''loginForm.CHANGE'' = Some \<lparr> actions = [Effect 0] \<rparr> \<and>
   handler_for (createState ''loginForm'' loginConfig
       \<lparr> on = Some [(''loginForm.CHANGE'', \<lparr> actions = [Effect (0::nat)] \<rparr>)] \<rparr>)
       ''loginForm.BLUR'' = Some \<lparr> actions = [Assign (assignBlurToState loginConfig)] \<rparr> \<and>
   values (form (send (createState ''loginForm'' loginConfig
       \<lparr> on = Some [(''loginForm.CHANGE'', \<lparr> actions = [Effect (0::nat)] \<rparr>)] \<rparr>)
       \<lparr> form = initialContext loginConfig \<rparr>
       (change ''loginForm'' ''username'' ''username''))) =
     [(''username'', []), (''password'', [])]"
proof -
  let ?config = "\<lparr> on = Some [(''loginForm.CHANGE'',
      \<lparr> actions = [Effect (0::nat)] \<rparr> :: (string FormContext, string ValueEvent, nat) TransitionConfig)] \<rparr>"
  have wf: "case on ?config of None \<Rightarrow> True | Some callers \<Rightarrow> wf_obj callers"
    by (simp add: wf_obj_def)
  have declared: "handler_for ?config (''loginForm'' @ ''.CHANGE'') = Some \<lparr> actions = [Effect 0] \<rparr>"
    and undeclared: "handler_for ?config (''loginForm'' @ ''.BLUR'') = None"
    by (simp_all add: handler_for_def get_prop_def)
  have tag: "type (change ''loginForm'' ''username'' ''username'' :: string ValueEvent)
      = ''loginForm'' @ ''.CHANGE''"
    by (simp add: change_def)
  have effects: "list_all is_Effect (actions \<lparr> actions = [Effect (0::nat) :: (string FormContext, string ValueEvent, nat) action] \<rparr>)"
    by simp
  note c = createState_handlers [OF wf, where key = "''loginForm''" and formConfig = loginConfig]
  have "handler_for (createState ''loginForm'' loginConfig ?config) (''loginForm'' @ ''.CHANGE'')
      = Some \<lparr> actions = [Effect 0] \<rparr>"
    using c declared by blast
  moreover have "handler_for (createState ''loginForm'' loginConfig ?config) (''loginForm'' @ ''.BLUR'')
      = Some \<lparr> actions = [Assign (assignBlurToState loginConfig)] \<rparr>"
    using c undeclared by blast
  moreover have "values (form (send (createState ''loginForm'' loginConfig ?config)
       \<lparr> form = initialContext loginConfig \<rparr> (change ''loginForm'' ''username'' ''username'')))
     = values (form \<lparr> form = initialContext loginConfig \<rparr>)"
    using c declared tag effects by blast
  ultimately show ?thesis
    by (simp add: wf_obj_def initialContext_def makeInitialStateFromConfig_def loginConfig_def)
qed

text \<open>
  An override that assigns: the caller handles \<^verbatim>\<open>'loginForm.CHANGE'\<close> with an assignment
  of its own, which writes \<^verbatim>\<open>username: 'SOMETHING'\<close>. The default behavior does not
  run, and the values change all the same.
\<close>

theorem override_assign_counterexample:
  "handler_for
     \<lparr> on = Some [(''loginForm.CHANGE'',
         \<lparr> actions = [Assign (\<lambda>ctx event.
            \<lparr> form = (form ctx) \<lparr> values := [(''username'', ''SOMETHING''), (''password'', [])] \<rparr> \<rparr>)
          :: (string FormContext, string ValueEvent, nat) action] \<rparr>)] \<rparr>
     ''loginForm.CHANGE'' \<noteq> None \<and>
   values (form \<lparr> form = initialContext loginConfig \<rparr>) =
     [(''username'', []), (''password'', [])] \<and>
   values (form (send (createState ''loginForm'' loginConfig
       \<lparr> on = Some [(''loginForm.CHANGE'',
           \<lparr> actions = [Assign (\<lambda>ctx event.
              \<lparr> form = (form ctx) \<lparr> values := [(''username'', ''SOMETHING''), (''password'', [])] \<rparr> \<rparr>)
            :: (string FormContext, string ValueEvent, nat) action] \<rparr>)] \<rparr>)
       \<lparr> form = initialContext loginConfig \<rparr>
       (change ''loginForm'' ''username'' ''something''))) =
     [(''username'', ''SOMETHING''), (''password'', [])]"
  by (simp add: handler_for_def send_def createState_def login_eval)

subsection \<open>Invariants of the reachable states\<close>

lemma errors_current_step:
  assumes "errors (form ctx) = or_empty (optional_call (validate config) (values (form ctx)))"
  shows "errors (form (apply_behavior config app ctx)) =
     or_empty (optional_call (validate config) (values (form (apply_behavior config app ctx))))"
  using assms
  by (cases app)
     (simp_all add: assignChangeToState_def assignBlurToState_def assignFocusToState_def Let_def)

lemma errors_current_fold:
  "errors (form ctx) = or_empty (optional_call (validate config) (values (form ctx))) \<Longrightarrow>
   errors (form (fold (apply_behavior config) apps ctx)) =
     or_empty (optional_call (validate config)
       (values (form (fold (apply_behavior config) apps ctx))))"
proof (induction apps arbitrary: ctx)
  case Nil
  then show ?case by simp
next
  case (Cons app apps)
  have "errors (form (apply_behavior config app ctx)) =
     or_empty (optional_call (validate config) (values (form (apply_behavior config app ctx))))"
    using Cons.prems by (rule errors_current_step)
  then show ?case using Cons.IH by simp
qed

text \<open>
  C6, as the code has it. In every state reached from the initial one by any sequence
  of CHANGE, BLUR and FOCUS behavior applications (with any events), \<^verbatim>\<open>errors\<close> is the
  mapping the validator returns for the current \<^verbatim>\<open>values\<close> when a validator was
  supplied and returns a mapping, and the empty mapping when no validator was supplied
  or the validator returns nothing for the current \<^verbatim>\<open>values\<close>.
\<close>

theorem errors_never_stale:
  "(let state = form (run_behaviors config apps) in
      errors state =
        (case validate config of None \<Rightarrow> []
         | Some f \<Rightarrow> (case f (values state) of None \<Rightarrow> [] | Some e \<Rightarrow> e)))"
proof -
  have "errors (form \<lparr> form = initialContext config \<rparr>) =
      or_empty (optional_call (validate config) (values (form \<lparr> form = initialContext config \<rparr>)))"
    by (simp add: initialContext_def makeInitialStateFromConfig_def)
  then have "errors (form (run_behaviors config apps)) =
      or_empty (optional_call (validate config) (values (form (run_behaviors config apps))))"
    unfolding run_behaviors_def by (rule errors_current_fold)
  then show ?thesis
    unfolding Let_def validation_result .
qed

theorem errors_never_stale_witness:
  "errors (form (run_behaviors loginConfig
      [ApplyChange (change ''loginForm'' ''username'' ''something''),
       ApplyFocus (focus ''loginForm'' ''password'')])) =
     [(''password'', Some ''You must provide a password'')] \<and>
   loginValidate (values (form (run_behaviors loginConfig
      [ApplyChange (change ''loginForm'' ''username'' ''something''),
       ApplyFocus (focus ''loginForm'' ''password'')]))) =
     Some [(''password'', Some ''You must provide a password'')]"
  using errors_never_stale [of loginConfig
      "[ApplyChange (change ''loginForm'' ''username'' ''something''),
        ApplyFocus (focus ''loginForm'' ''password'')]"]
  by (simp add: login_eval)

text \<open>
  In the state the login form reaches once both fields are filled in, the validator
  returns nothing for the current values and \<^verbatim>\<open>errors\<close> is the empty object.
\<close>

theorem stale_errors_counterexample:
  "validate loginConfig = Some loginValidate \<and>
   loginValidate (values (form (run_behaviors loginConfig
      [ApplyChange (change ''loginForm'' ''username'' ''something''),
       ApplyChange (change ''loginForm'' ''password'' ''pass'')]))) \<noteq>
     Some (errors (form (run_behaviors loginConfig
      [ApplyChange (change ''loginForm'' ''username'' ''something''),
       ApplyChange (change ''loginForm'' ''password'' ''pass'')])))"
  by (simp add: login_eval)

lemma Object_keys_Nil: "Object_keys [] = []"
  by (simp add: Object_keys_def)

lemma wf_obj_Nil: "wf_obj []"
  by (simp add: wf_obj_def)

lemma touched_fields_step:
  assumes keys: "set (Object_keys (touched (form ctx))) = K"
    and wf: "wf_obj (touched (form ctx))"
    and declared: "call_name c \<in> K"
  shows "set (Object_keys (touched (form (apply_behavior config (call_event key c) ctx)))) = K \<and>
     wf_obj (touched (form (apply_behavior config (call_event key c) ctx)))"
proof (cases c)
  case (CallChange n v)
  then show ?thesis using keys wf
    by (simp add: assignChangeToState_def Let_def)
next
  case (CallBlur n v)
  then show ?thesis using keys wf
    by (simp add: assignBlurToState_def Let_def)
next
  case (CallFocus n)
  then have "n \<in> K" using declared by simp
  then show ?thesis using CallFocus keys wf
    by (auto simp: assignFocusToState_def focus_def spread_empty keys_set_prop wf_set_prop)
qed

lemma touched_fields_fold:
  "set (Object_keys (touched (form ctx))) = K \<Longrightarrow> wf_obj (touched (form ctx)) \<Longrightarrow>
   \<forall>c \<in> set calls. call_name c \<in> K \<Longrightarrow>
   set (Object_keys (touched (form (fold (apply_behavior config) (map (call_event key) calls) ctx)))) = K \<and>
   wf_obj (touched (form (fold (apply_behavior config) (map (call_event key) calls) ctx)))"
proof (induction calls arbitrary: ctx)
  case Nil
  then show ?case by simp
next
  case (Cons c calls)
  have "call_name c \<in> K" using Cons.prems(3) by simp
  with Cons.prems(1,2)
  have step: "set (Object_keys (touched (form (apply_behavior config (call_event key c) ctx)))) = K \<and>
     wf_obj (touched (form (apply_behavior config (call_event key c) ctx)))"
    by (rule touched_fields_step)
  have rest: "\<forall>c \<in> set calls. call_name c \<in> K" using Cons.prems(3) by simp
  show ?case
    using Cons.IH [OF conjunct1 [OF step] conjunct2 [OF step] rest] by simp
qed

text \<open>
  Where \<^verbatim>\<open>__proto__\<close> is no field of \<^verbatim>\<open>initialValues\<close>, events made by the model's
  event constructors on declared field names leave the property names of \<^verbatim>\<open>touched\<close>
  those of \<^verbatim>\<open>initialValues\<close>, each once.
\<close>

lemma touched_fields_fixed_ordinary:
  assumes "\<forall>c \<in> set calls. call_name c \<in> set (Object_keys (initialValues config))"
    and "''__proto__'' \<notin> set (Object_keys (initialValues config))"
  shows
    "set (Object_keys (touched (form (run_behaviors config (map (call_event key) calls))))) =
       set (Object_keys (initialValues config)) \<and>
     distinct (Object_keys (touched (form (run_behaviors config (map (call_event key) calls)))))"
proof -
  let ?start = "\<lparr> form = initialContext config \<rparr>"
  have keys: "set (Object_keys (touched (form ?start))) = set (Object_keys (initialValues config))"
    using assms(2)
    by (auto simp: initialContext_def makeInitialStateFromConfig_def toInitialBooleanMap_def
        fold_false_keys Object_keys_Nil)
  have wf: "wf_obj (touched (form ?start))"
    by (simp add: initialContext_def makeInitialStateFromConfig_def toInitialBooleanMap_def
        fold_false_wf wf_obj_Nil)
  show ?thesis
    using touched_fields_fold [OF keys wf assms(1), of config key]
    by (simp add: run_behaviors_def wf_obj_def Object_keys_def)
qed

text \<open>
  C8. The claim: in every state reached from the initial one by events made by the
  model's event constructors on field names of \<^verbatim>\<open>initialValues\<close>, \<^verbatim>\<open>touched\<close> has one
  entry for each field of \<^verbatim>\<open>initialValues\<close>, and no field is ever added or removed.
  The code breaks it for a field named \<^verbatim>\<open>__proto__\<close>. With \<^verbatim>\<open>initialValues\<close> of the
  fields \<^verbatim>\<open>__proto__\<close> and \<^verbatim>\<open>a\<close>, the initial \<^verbatim>\<open>touched\<close> has the one entry \<^verbatim>\<open>a\<close>, since
  \<^verbatim>\<open>map[key] = false\<close> writes no property under \<^verbatim>\<open>__proto__\<close>; and
  \<^verbatim>\<open>events.focus('__proto__')\<close>, on a declared field, then adds an entry to \<^verbatim>\<open>touched\<close>.
\<close>

theorem touched_fields_proto_failure:
  "Object_keys (initialValues
      \<lparr> initialValues = [(''__proto__'', ''x''), (''a'', ''y'')], validate = None \<rparr>) =
     [''__proto__'', ''a''] \<and>
   touched (form (run_behaviors
      \<lparr> initialValues = [(''__proto__'', ''x''), (''a'', ''y'')], validate = None \<rparr>
      (map (call_event ''form'') []))) = [(''a'', False)] \<and>
   touched (form (run_behaviors
      \<lparr> initialValues = [(''__proto__'', ''x''), (''a'', ''y'')], validate = None \<rparr>
      (map (call_event ''form'') [CallFocus ''__proto__'']))) =
     [(''a'', False), (''__proto__'', True)]"
  by (simp add: login_eval)

subsection \<open>A validator that returns nothing\<close>

text \<open>
  C10. \<^verbatim>\<open>errors\<close> is always an object. Whenever the supplied validator returns nothing
  (\<^verbatim>\<open>void\<close>) for the values it is given, \<open>makeInitialStateFromConfig\<close>, the CHANGE
  behavior and the BLUR behavior each store the empty object as \<^verbatim>\<open>errors\<close>, and
  \<open>getIsValid\<close> of the result is true.
\<close>

theorem void_validation_gives_empty_errors:
  assumes "validate config = Some f"
  shows
    "(f (initialValues config) = None \<longrightarrow>
        errors (makeInitialStateFromConfig config) = [] \<and>
        getIsValid \<lparr> form = makeInitialStateFromConfig config \<rparr>) \<and>
     (f (values (form (assignChangeToState config ctx event))) = None \<longrightarrow>
        errors (form (assignChangeToState config ctx event)) = [] \<and>
        getIsValid (assignChangeToState config ctx event)) \<and>
     (f (values (form (assignBlurToState config ctx event))) = None \<longrightarrow>
        errors (form (assignBlurToState config ctx event)) = [] \<and>
        getIsValid (assignBlurToState config ctx event))"
  using assms
  by (simp add: makeInitialStateFromConfig_def assignChangeToState_def assignBlurToState_def
      Let_def or_empty_def optional_call_def getIsValid_def Object_keys_def)

theorem void_validation_gives_empty_errors_witness:
  "validate loginConfig = Some loginValidate \<and>
   loginValidate (initialValues
      (loginConfig \<lparr> initialValues := [(''username'', ''bob''), (''password'', ''hunter2'')] \<rparr>)) = None \<and>
   errors (makeInitialStateFromConfig
      (loginConfig \<lparr> initialValues := [(''username'', ''bob''), (''password'', ''hunter2'')] \<rparr>)) = [] \<and>
   getIsValid (assignBlurToState
      (loginConfig \<lparr> initialValues := [(''username'', ''bob''), (''password'', ''hunter2'')] \<rparr>)
      \<lparr> form = initialContext
         (loginConfig \<lparr> initialValues := [(''username'', ''bob''), (''password'', ''hunter2'')] \<rparr>) \<rparr>
      (blur ''loginForm'' ''password'' ''hunter3''))"
  using void_validation_gives_empty_errors [of
      "loginConfig \<lparr> initialValues := [(''username'', ''bob''), (''password'', ''hunter2'')] \<rparr>"
      loginValidate
      "\<lparr> form = initialContext
         (loginConfig \<lparr> initialValues := [(''username'', ''bob''), (''password'', ''hunter2'')] \<rparr>) \<rparr>"
      "blur ''loginForm'' ''password'' ''hunter3''"]
  by (simp add: login_eval)

end
